theory Spec2Isabelle
  imports Main "HOL-Library.Sublist"
begin

section \<open>The lookup script \<^verbatim>\<open>src/a.py\<close>\<close>

text \<open>
  The script has one function, \<^verbatim>\<open>get_ip_from_tiktok_username\<close>, and a module-level
  \<^verbatim>\<open>try\<close> statement that calls it once and prints one line. Its only effects are the
  call of \<^verbatim>\<open>socket.gethostbyname\<close> and the writes to standard output, so the state
  that is passed along holds the hostnames handed to the resolver, in call order, and the
  characters written to standard output.
\<close>

subsection \<open>Exceptions\<close>

text \<open>
  The two \<^verbatim>\<open>except\<close> clauses of the script tell exceptions apart by class only:
  \<^verbatim>\<open>except socket.gaierror\<close> in the function, and
  \<^verbatim>\<open>except (ValueError, socket.gaierror)\<close> at the top level. An exception is
  therefore its class, as far as these clauses see it (an instance of \<^verbatim>\<open>ValueError\<close>,
  an instance of \<^verbatim>\<open>socket.gaierror\<close>, or neither), and the text that \<^verbatim>\<open>str(e)\<close>
  gives, which is what the f-strings \<^verbatim>\<open>{e}\<close> insert.
\<close>

datatype exn_kind = ValueError | Gaierror | OtherExn

datatype pyexn = Exn (kind: exn_kind) (message: string)

text \<open>
  A caller of the function can see more of an exception object than the script's own
  clauses do: its \<^verbatim>\<open>args\<close>, the attributes \<^verbatim>\<open>errno\<close> and \<^verbatim>\<open>strerror\<close> that the
  \<^verbatim>\<open>OSError\<close> family (to which \<^verbatim>\<open>socket.gaierror\<close> belongs) derives from them, and
  \<^verbatim>\<open>__context__\<close>, the exception that was being handled when this one was raised. The
  type \<open>pyexc\<close> keeps these next to the class and the text of \<^verbatim>\<open>str(e)\<close>; \<open>observed\<close>
  forgets them again.
\<close>

datatype pyval = PyInt int | PyStr string

datatype pyexc =
  Exc (exc_kind: exn_kind) (exc_args: "pyval list") (exc_text: string)
      (exc_context: "pyexc option")

definition observed :: "pyexc \<Rightarrow> pyexn" where
  "observed e = Exn (exc_kind e) (exc_text e)"

text \<open>
  The constructor of \<^verbatim>\<open>OSError\<close> sets \<^verbatim>\<open>errno\<close> and \<^verbatim>\<open>strerror\<close> from the first two
  arguments when it is given two to five of them, and leaves both \<^verbatim>\<open>None\<close> otherwise.
\<close>

definition errno :: "pyexc \<Rightarrow> pyval option" where
  "errno e =
     (if exc_kind e = Gaierror \<and> 2 \<le> length (exc_args e) \<and> length (exc_args e) \<le> 5
      then Some (exc_args e ! 0) else None)"

definition strerror :: "pyexc \<Rightarrow> pyval option" where
  "strerror e =
     (if exc_kind e = Gaierror \<and> 2 \<le> length (exc_args e) \<and> length (exc_args e) \<le> 5
      then Some (exc_args e ! 1) else None)"

subsection \<open>State\<close>

record world =
  lookups :: "string list"
  stdout :: string

definition newline :: char where
  "newline = CHR 0x0A"

text \<open>\<^verbatim>\<open>print(s)\<close> writes \<^verbatim>\<open>s\<close> and a line feed.\<close>

definition py_print :: "string \<Rightarrow> world \<Rightarrow> world" where
  "py_print s w = w\<lparr>stdout := stdout w @ s @ [newline]\<rparr>"

subsection \<open>The resolver\<close>

text \<open>
  \<^verbatim>\<open>socket.gethostbyname\<close> belongs to the standard library, not to the script: it is a
  parameter of the model. Given the hostname string it either returns an address
  (\<open>Inr\<close>) or raises an exception (\<open>Inl\<close>). Calling it is recorded in the state.
\<close>

type_synonym resolver = "string \<Rightarrow> pyexn + string"

definition socket_gethostbyname :: "resolver \<Rightarrow> string \<Rightarrow> world \<Rightarrow> (pyexn + string) \<times> world" where
  "socket_gethostbyname r host w = (r host, w\<lparr>lookups := lookups w @ [host]\<rparr>)"

subsection \<open>The function\<close>

text \<open>
  \<^verbatim>\<open>
  if not username:
      raise ValueError("Invalid TikTok username provided.")
  try:
      url = (the f-string: the literal https://www.tiktok.com/@ followed by username)
      ip_address = socket.gethostbyname(url)
      return ip_address
  except socket.gaierror as e:
      raise socket.gaierror(f"Error getting IP address for {username}: {e}")
  \<close>
  An exception of the resolver that is not a \<^verbatim>\<open>socket.gaierror\<close> is not caught by the
  \<^verbatim>\<open>except\<close> clause and leaves the function as it is.
\<close>

definition get_ip_from_tiktok_username ::
    "resolver \<Rightarrow> string \<Rightarrow> world \<Rightarrow> (pyexn + string) \<times> world" where
  "get_ip_from_tiktok_username r username w =
     (if username = [] then
        (Inl (Exn ValueError ''Invalid TikTok username provided.''), w)
      else
        let url = ''https://www.tiktok.com/@'' @ username in
        case socket_gethostbyname r url w of
          (Inr ip_address, w') \<Rightarrow> (Inr ip_address, w')
        | (Inl e, w') \<Rightarrow>
            if kind e = Gaierror then
              (Inl (Exn Gaierror
                 (''Error getting IP address for '' @ username @ '': '' @ message e)), w')
            else (Inl e, w'))"

text \<open>
  The same function with the exception objects in full. \<^verbatim>\<open>ValueError(s)\<close> and
  \<^verbatim>\<open>socket.gaierror(s)\<close> build an exception whose only argument is the string \<open>s\<close>,
  and \<^verbatim>\<open>str\<close> of it is \<open>s\<close>. The \<^verbatim>\<open>raise\<close> of line 24 happens while the exception
  \<open>handling\<close> of the caller, if any, is being handled (none in the script); the
  \<^verbatim>\<open>raise\<close> of line 31 happens inside the \<^verbatim>\<open>except\<close> clause, while the resolver's
  exception \<open>e\<close> is being handled, so \<open>e\<close> becomes its \<^verbatim>\<open>__context__\<close>.
\<close>

type_synonym resolver_exc = "string \<Rightarrow> pyexc + string"

definition get_ip_from_tiktok_username_exc ::
    "pyexc option \<Rightarrow> resolver_exc \<Rightarrow> string \<Rightarrow> world \<Rightarrow> (pyexc + string) \<times> world" where
  "get_ip_from_tiktok_username_exc handling r username w =
     (if username = [] then
        (Inl (Exc ValueError [PyStr ''Invalid TikTok username provided.'']
                ''Invalid TikTok username provided.'' handling), w)
      else
        let url = ''https://www.tiktok.com/@'' @ username;
            w' = w\<lparr>lookups := lookups w @ [url]\<rparr>
        in
        case r url of
          Inr ip_address \<Rightarrow> (Inr ip_address, w')
        | Inl e \<Rightarrow>
            if exc_kind e = Gaierror then
              (Inl (Exc Gaierror
                 [PyStr (''Error getting IP address for '' @ username @ '': '' @ exc_text e)]
                 (''Error getting IP address for '' @ username @ '': '' @ exc_text e)
                 (Some e)), w')
            else (Inl e, w'))"

subsection \<open>The module-level driver\<close>

text \<open>
  \<^verbatim>\<open>
  try:
      tiktok_username = "80alaajutt"
      ip_address = get_ip_from_tiktok_username(tiktok_username)
      print(f"The IP address for TikTok username '{tiktok_username}' is: {ip_address}")
  except (ValueError, socket.gaierror) as e:
      print(f"Error: {e}")
  \<close>
  The script ends after this statement. It completes, and the interpreter exits with
  status 0, unless an exception that the \<^verbatim>\<open>except\<close> clause does not name leaves the
  statement; then nothing was printed to standard output and the interpreter ends the
  process on that exception. How it ends then depends on the exception (status 1 after
  the traceback of an ordinary exception, the code that a \<^verbatim>\<open>SystemExit\<close> carries, death
  by the signal for \<^verbatim>\<open>KeyboardInterrupt\<close>), which the three classes kept here do not tell
  apart: the exit status is then \<open>None\<close>.
\<close>

datatype outcome = Completed | Uncaught pyexn

fun exit_status :: "outcome \<Rightarrow> nat option" where
  "exit_status Completed = Some 0"
| "exit_status (Uncaught e) = None"

text \<open>The clause \<^verbatim>\<open>except (ValueError, socket.gaierror) as e: print(f"Error: {e}")\<close>.\<close>

definition top_level_except :: "pyexn \<Rightarrow> world \<Rightarrow> outcome \<times> world" where
  "top_level_except e w =
     (if kind e = ValueError \<or> kind e = Gaierror then
        (Completed, py_print (''Error: '' @ message e) w)
      else (Uncaught e, w))"

text \<open>The \<^verbatim>\<open>try\<close> statement, for the identifier bound to \<^verbatim>\<open>tiktok_username\<close>.\<close>

definition run_with :: "resolver \<Rightarrow> string \<Rightarrow> world \<Rightarrow> outcome \<times> world" where
  "run_with r tiktok_username w =
     (case get_ip_from_tiktok_username r tiktok_username w of
        (Inr ip_address, w') \<Rightarrow>
          (Completed,
           py_print (''The IP address for TikTok username '' @ [CHR 0x27] @ tiktok_username
                     @ [CHR 0x27] @ '' is: '' @ ip_address) w')
      | (Inl e, w') \<Rightarrow> top_level_except e w')"

text \<open>The script binds the literal \<^verbatim>\<open>"80alaajutt"\<close>.\<close>

definition script :: "resolver \<Rightarrow> world \<Rightarrow> outcome \<times> world" where
  "script r w = run_with r ''80alaajutt'' w"

text \<open>
  What the docstring of the function and the manual of the socket module say of the
  resolver: it returns an address, which is not the empty string, or raises
  \<^verbatim>\<open>socket.gaierror\<close>.
\<close>

definition documented_response :: "pyexn + string \<Rightarrow> bool" where
  "documented_response x =
     (case x of Inr ip_address \<Rightarrow> ip_address \<noteq> [] | Inl e \<Rightarrow> kind e = Gaierror)"

text \<open>
  The error that the resolver raises on Linux for a name it cannot resolve,
  \<^verbatim>\<open>socket.gaierror(-2, 'Name or service not known')\<close>, raised while nothing else is
  being handled.
\<close>

definition name_not_known :: pyexc where
  "name_not_known =
     Exc Gaierror [PyInt (- 2), PyStr ''Name or service not known'']
       ''[Errno -2] Name or service not known'' None"

section \<open>Properties\<close>

subsection \<open>Helper facts\<close>

lemma get_ip_empty:
  "get_ip_from_tiktok_username r [] w =
     (Inl (Exn ValueError ''Invalid TikTok username provided.''), w)"
  by (simp add: get_ip_from_tiktok_username_def)

lemma get_ip_returns:
  assumes "username \<noteq> []" and "r (''https://www.tiktok.com/@'' @ username) = Inr a"
  shows "get_ip_from_tiktok_username r username w =
           (Inr a, w\<lparr>lookups := lookups w @ [''https://www.tiktok.com/@'' @ username]\<rparr>)"
  using assms by (simp add: get_ip_from_tiktok_username_def socket_gethostbyname_def)

lemma get_ip_gaierror:
  assumes "username \<noteq> []" and "r (''https://www.tiktok.com/@'' @ username) = Inl e"
    and "kind e = Gaierror"
  shows "get_ip_from_tiktok_username r username w =
           (Inl (Exn Gaierror (''Error getting IP address for '' @ username @ '': '' @ message e)),
            w\<lparr>lookups := lookups w @ [''https://www.tiktok.com/@'' @ username]\<rparr>)"
  using assms by (simp add: get_ip_from_tiktok_username_def socket_gethostbyname_def)

lemma get_ip_passes_on:
  assumes "username \<noteq> []" and "r (''https://www.tiktok.com/@'' @ username) = Inl e"
    and "kind e \<noteq> Gaierror"
  shows "get_ip_from_tiktok_username r username w =
           (Inl e, w\<lparr>lookups := lookups w @ [''https://www.tiktok.com/@'' @ username]\<rparr>)"
  using assms by (simp add: get_ip_from_tiktok_username_def socket_gethostbyname_def)

lemma get_ip_lookups:
  "username \<noteq> [] \<Longrightarrow>
   lookups (snd (get_ip_from_tiktok_username r username w)) =
     lookups w @ [''https://www.tiktok.com/@'' @ username]"
  by (simp add: get_ip_from_tiktok_username_def socket_gethostbyname_def Let_def
        split: sum.splits)

lemma get_ip_stdout:
  "stdout (snd (get_ip_from_tiktok_username r username w)) = stdout w"
  by (simp add: get_ip_from_tiktok_username_def socket_gethostbyname_def Let_def
        split: sum.splits)

lemma run_with_returns:
  assumes "get_ip_from_tiktok_username r username w = (Inr a, w1)"
  shows "run_with r username w =
           (Completed,
            w1\<lparr>stdout := stdout w1 @ ''The IP address for TikTok username '' @ [CHR 0x27]
                   @ username @ [CHR 0x27] @ '' is: '' @ a @ [newline]\<rparr>)"
  using assms by (simp add: run_with_def py_print_def)

lemma run_with_caught:
  assumes "get_ip_from_tiktok_username r username w = (Inl e, w1)"
    and "kind e = ValueError \<or> kind e = Gaierror"
  shows "run_with r username w =
           (Completed, w1\<lparr>stdout := stdout w1 @ ''Error: '' @ message e @ [newline]\<rparr>)"
  using assms by (simp add: run_with_def top_level_except_def py_print_def)

lemma run_with_uncaught:
  assumes "get_ip_from_tiktok_username r username w = (Inl e, w1)"
    and "kind e = OtherExn"
  shows "run_with r username w = (Uncaught e, w1)"
  using assms by (simp add: run_with_def top_level_except_def)

text \<open>
  Forgetting the details of the exception objects turns the function on full exceptions
  into the function above.
\<close>

lemma get_ip_exc_observed:
  "get_ip_from_tiktok_username (map_sum observed id \<circ> r) username w =
     (map_sum observed id (fst (get_ip_from_tiktok_username_exc handling r username w)),
      snd (get_ip_from_tiktok_username_exc handling r username w))"
proof (cases "r (''https://www.tiktok.com/@'' @ username)")
  case (Inl e)
  then show ?thesis
    by (cases "exc_kind e = Gaierror")
       (simp_all add: get_ip_from_tiktok_username_def get_ip_from_tiktok_username_exc_def
          socket_gethostbyname_def observed_def Let_def)
next
  case (Inr a)
  then show ?thesis
    by (simp add: get_ip_from_tiktok_username_def get_ip_from_tiktok_username_exc_def
          socket_gethostbyname_def observed_def Let_def)
qed

subsection \<open>Properties of the function\<close>

text \<open>
  Claim C1. For every non-empty identifier, the string handed to the resolver is
  \<^verbatim>\<open>"https://www.tiktok.com/@"\<close> followed by the identifier: the call appends exactly
  this string to the record of lookups. It is a URL with its scheme and path, and not
  the hostname \<^verbatim>\<open>www.tiktok.com\<close>.
\<close>

theorem resolver_receives_full_url:
  assumes "username \<noteq> []"
  shows "lookups (snd (get_ip_from_tiktok_username r username w)) =
           lookups w @ [''https://www.tiktok.com/@'' @ username]
         \<and> prefix ''https://'' (''https://www.tiktok.com/@'' @ username)
         \<and> ''https://www.tiktok.com/@'' @ username \<noteq> ''www.tiktok.com''"
  using assms by (simp add: get_ip_lookups)

theorem resolver_receives_full_url_witness:
  "''a'' \<noteq> []
   \<and> lookups (snd (get_ip_from_tiktok_username (\<lambda>h. Inr ''1.2.3.4'') ''a''
         \<lparr>lookups = [], stdout = []\<rparr>)) = [''https://www.tiktok.com/@a'']"
  using resolver_receives_full_url [of "''a''" "\<lambda>h. Inr ''1.2.3.4''" "\<lparr>lookups = [], stdout = []\<rparr>"]
  by simp

text \<open>
  Claim C2. For the empty identifier the function raises \<^verbatim>\<open>ValueError\<close> with the
  message \<^verbatim>\<open>Invalid TikTok username provided.\<close> and the state is the one it was called
  in: the resolver has not been called. Run through the top-level \<^verbatim>\<open>try\<close> statement,
  the error is printed as \<^verbatim>\<open>Error: Invalid TikTok username provided.\<close>
\<close>

theorem empty_username_rejected_before_lookup:
  "get_ip_from_tiktok_username r [] w =
     (Inl (Exn ValueError ''Invalid TikTok username provided.''), w)
   \<and> lookups (snd (get_ip_from_tiktok_username r [] w)) = lookups w
   \<and> run_with r [] w =
       (Completed,
        w\<lparr>stdout := stdout w @ ''Error: Invalid TikTok username provided.'' @ [newline]\<rparr>)"
  by (simp add: get_ip_empty run_with_def top_level_except_def py_print_def)

text \<open>
  Claim C3. For every non-empty identifier, when the resolver raises
  \<^verbatim>\<open>socket.gaierror\<close> for the constructed string, the function raises
  \<^verbatim>\<open>socket.gaierror\<close> with the message
  \<^verbatim>\<open>Error getting IP address for <id>: <cause>\<close>, which contains both the identifier and
  the text of the resolver's error.
\<close>

theorem resolution_error_message:
  assumes "username \<noteq> []"
    and "r (''https://www.tiktok.com/@'' @ username) = Inl e"
    and "kind e = Gaierror"
  shows "fst (get_ip_from_tiktok_username r username w) =
           Inl (Exn Gaierror (''Error getting IP address for '' @ username @ '': '' @ message e))
         \<and> sublist username (''Error getting IP address for '' @ username @ '': '' @ message e)
         \<and> sublist (message e) (''Error getting IP address for '' @ username @ '': '' @ message e)"
proof -
  have "fst (get_ip_from_tiktok_username r username w) =
           Inl (Exn Gaierror (''Error getting IP address for '' @ username @ '': '' @ message e))"
    using assms by (simp add: get_ip_gaierror)
  moreover have "sublist username (''Error getting IP address for '' @ username @ '': '' @ message e)"
    by (rule sublist_appendI)
  moreover have "sublist (message e) (''Error getting IP address for '' @ username @ '': '' @ message e)"
    using sublist_appendI [of "message e" "''Error getting IP address for '' @ username @ '': ''" "[]"]
    by simp
  ultimately show ?thesis by blast
qed

theorem resolution_error_message_witness:
  "''bob'' \<noteq> []
   \<and> fst (get_ip_from_tiktok_username
            (\<lambda>h. Inl (Exn Gaierror ''[Errno -2] Name or service not known''))
            ''bob'' \<lparr>lookups = [], stdout = []\<rparr>) =
       Inl (Exn Gaierror
         ''Error getting IP address for bob: [Errno -2] Name or service not known'')"
  using resolution_error_message [of "''bob''"
      "\<lambda>h. Inl (Exn Gaierror ''[Errno -2] Name or service not known'')"
      "Exn Gaierror ''[Errno -2] Name or service not known''" "\<lparr>lookups = [], stdout = []\<rparr>"]
  by simp

text \<open>
  Claim C4. For every non-empty identifier the function calls the resolver exactly once,
  with the constructed string: one entry is appended to the record of lookups, whatever
  was looked up before (no cached answer is used, and no second attempt is made). It then
  returns the resolver's address unchanged, or raises the resolution error when the
  resolver raised \<^verbatim>\<open>socket.gaierror\<close>, or lets any other exception of the resolver
  pass unchanged. With a resolver that answers as documented, the outcome is a non-empty
  address or the resolution error.
\<close>

theorem one_lookup_then_address_or_error:
  assumes "username \<noteq> []"
  shows "lookups (snd (get_ip_from_tiktok_username r username w)) =
           lookups w @ [''https://www.tiktok.com/@'' @ username]
         \<and> ((\<exists>a. r (''https://www.tiktok.com/@'' @ username) = Inr a
                 \<and> fst (get_ip_from_tiktok_username r username w) = Inr a)
            \<or> (\<exists>e. r (''https://www.tiktok.com/@'' @ username) = Inl e \<and> kind e = Gaierror
                 \<and> fst (get_ip_from_tiktok_username r username w) =
                     Inl (Exn Gaierror
                       (''Error getting IP address for '' @ username @ '': '' @ message e)))
            \<or> (\<exists>e. r (''https://www.tiktok.com/@'' @ username) = Inl e \<and> kind e \<noteq> Gaierror
                 \<and> fst (get_ip_from_tiktok_username r username w) = Inl e))
         \<and> (documented_response (r (''https://www.tiktok.com/@'' @ username)) \<longrightarrow>
              (\<exists>a. a \<noteq> [] \<and> fst (get_ip_from_tiktok_username r username w) = Inr a)
              \<or> (\<exists>c. fst (get_ip_from_tiktok_username r username w) =
                     Inl (Exn Gaierror
                       (''Error getting IP address for '' @ username @ '': '' @ c))))"
proof (cases "r (''https://www.tiktok.com/@'' @ username)")
  case (Inl e)
  show ?thesis
  proof (cases "kind e = Gaierror")
    case True
    with assms Inl show ?thesis
      by (simp add: get_ip_gaierror)
  next
    case False
    with assms Inl show ?thesis
      by (simp add: get_ip_passes_on documented_response_def)
  qed
next
  case (Inr a)
  with assms show ?thesis
    by (simp add: get_ip_returns documented_response_def)
qed

theorem one_lookup_then_address_or_error_witness:
  "''bob'' \<noteq> []
   \<and> get_ip_from_tiktok_username
        (\<lambda>h. if h = ''https://www.tiktok.com/@bob'' then Inr ''203.0.113.7''
              else Inl (Exn Gaierror ''unknown host''))
        ''bob'' \<lparr>lookups = [''https://www.tiktok.com/@bob''], stdout = []\<rparr> =
       (Inr ''203.0.113.7'',
        \<lparr>lookups = [''https://www.tiktok.com/@bob'', ''https://www.tiktok.com/@bob''],
         stdout = []\<rparr>)"
  using one_lookup_then_address_or_error [of "''bob''"
      "\<lambda>h. if h = ''https://www.tiktok.com/@bob'' then Inr ''203.0.113.7''
            else Inl (Exn Gaierror ''unknown host'')"
      "\<lparr>lookups = [''https://www.tiktok.com/@bob''], stdout = []\<rparr>"]
  by (simp add: get_ip_from_tiktok_username_def Let_def socket_gethostbyname_def)

text \<open>
  The claim as written leaves out the third outcome. The resolver encodes its argument
  with the \<^verbatim>\<open>idna\<close> codec before any lookup, and that codec raises
  \<^verbatim>\<open>UnicodeError\<close>, a \<^verbatim>\<open>ValueError\<close>, for an empty label or a label of 64 characters
  or more; the identifier \<^verbatim>\<open>a..b\<close> gives the argument an empty label. The function
  then neither returns an address nor raises the resolution error.
\<close>

theorem resolver_value_error_counterexample:
  "''a..b'' \<noteq> []
   \<and> get_ip_from_tiktok_username
        (\<lambda>h. Inl (Exn ValueError
           ''encoding with 'idna' codec failed (UnicodeError: label empty or too long)''))
        ''a..b'' \<lparr>lookups = [], stdout = []\<rparr> =
       (Inl (Exn ValueError
           ''encoding with 'idna' codec failed (UnicodeError: label empty or too long)''),
        \<lparr>lookups = [''https://www.tiktok.com/@a..b''], stdout = []\<rparr>)
   \<and> \<not> ((\<exists>a. a \<noteq> [] \<and> fst (get_ip_from_tiktok_username
        (\<lambda>h. Inl (Exn ValueError
           ''encoding with 'idna' codec failed (UnicodeError: label empty or too long)''))
        ''a..b'' \<lparr>lookups = [], stdout = []\<rparr>) = Inr a)
      \<or> (\<exists>c. fst (get_ip_from_tiktok_username
        (\<lambda>h. Inl (Exn ValueError
           ''encoding with 'idna' codec failed (UnicodeError: label empty or too long)''))
        ''a..b'' \<lparr>lookups = [], stdout = []\<rparr>) =
          Inl (Exn Gaierror (''Error getting IP address for '' @ ''a..b'' @ '': '' @ c))))"
  by (simp add: get_ip_from_tiktok_username_def Let_def socket_gethostbyname_def)

text \<open>
  Claim C8. The function checks nothing of the identifier but that it is not empty. For
  every non-empty identifier, whatever its characters or length, the run goes on to the
  lookup: the state it ends in has the lookup recorded, so its outcome is never the
  outcome of the invalid-input branch, which leaves the state as it was. A
  \<^verbatim>\<open>ValueError\<close> that leaves the function on a non-empty identifier is one that the
  resolver raised, not the function's invalid-input error.
\<close>

theorem nonempty_username_reaches_lookup:
  assumes "username \<noteq> []"
  shows "snd (get_ip_from_tiktok_username r username w) =
           w\<lparr>lookups := lookups w @ [''https://www.tiktok.com/@'' @ username]\<rparr>
         \<and> get_ip_from_tiktok_username r username w \<noteq>
             (Inl (Exn ValueError ''Invalid TikTok username provided.''), w)
         \<and> (\<forall>e. fst (get_ip_from_tiktok_username r username w) = Inl e \<and> kind e = ValueError
               \<longrightarrow> r (''https://www.tiktok.com/@'' @ username) = Inl e)"
proof -
  have st: "snd (get_ip_from_tiktok_username r username w) =
           w\<lparr>lookups := lookups w @ [''https://www.tiktok.com/@'' @ username]\<rparr>"
    using assms
    by (simp add: get_ip_from_tiktok_username_def socket_gethostbyname_def Let_def
          split: sum.splits)
  have "lookups (snd (get_ip_from_tiktok_username r username w)) \<noteq> lookups w"
    using st by simp
  then have ne: "get_ip_from_tiktok_username r username w \<noteq>
             (Inl (Exn ValueError ''Invalid TikTok username provided.''), w)"
    by (metis snd_conv)
  have own: "r (''https://www.tiktok.com/@'' @ username) = Inl e"
    if "fst (get_ip_from_tiktok_username r username w) = Inl e" and "kind e = ValueError" for e
    using assms that
    by (auto simp add: get_ip_from_tiktok_username_def socket_gethostbyname_def Let_def
          split: sum.splits if_splits)
  from st ne own show ?thesis by blast
qed

theorem nonempty_username_reaches_lookup_witness:
  "'' !'' \<noteq> []
   \<and> snd (get_ip_from_tiktok_username (\<lambda>h. Inr ''1.2.3.4'') '' !''
         \<lparr>lookups = [], stdout = []\<rparr>) =
       \<lparr>lookups = [''https://www.tiktok.com/@ !''], stdout = []\<rparr>"
  using nonempty_username_reaches_lookup [of "'' !''" "\<lambda>h. Inr ''1.2.3.4''"
      "\<lparr>lookups = [], stdout = []\<rparr>"]
  by simp

text \<open>
  Claim C9. The error that the function raises in place of a \<^verbatim>\<open>socket.gaierror\<close> of
  the resolver is again a \<^verbatim>\<open>socket.gaierror\<close>, so the two cannot be told apart by their
  class and the top-level clause treats both alike. Its only argument is the formatted
  message string, which is also its text, and that text differs from the text of the
  resolver's error. The text is not the only difference: having one argument, the new
  error has neither \<^verbatim>\<open>errno\<close> nor \<^verbatim>\<open>strerror\<close>, and its \<^verbatim>\<open>__context__\<close> is the
  resolver's error.
\<close>

theorem wrapped_error_same_class_new_object:
  assumes "username \<noteq> []"
    and "r (''https://www.tiktok.com/@'' @ username) = Inl e"
    and "exc_kind e = Gaierror"
  shows "\<exists>e'. fst (get_ip_from_tiktok_username_exc handling r username w) = Inl e'
           \<and> exc_kind e' = exc_kind e
           \<and> exc_args e' =
               [PyStr (''Error getting IP address for '' @ username @ '': '' @ exc_text e)]
           \<and> exc_text e' = ''Error getting IP address for '' @ username @ '': '' @ exc_text e
           \<and> exc_text e' \<noteq> exc_text e
           \<and> errno e' = None \<and> strerror e' = None
           \<and> exc_context e' = Some e
           \<and> e' \<noteq> e
           \<and> fst (top_level_except (observed e') w0) = fst (top_level_except (observed e) w0)"
proof -
  let ?m = "''Error getting IP address for '' @ username @ '': '' @ exc_text e"
  have res: "fst (get_ip_from_tiktok_username_exc handling r username w) =
               Inl (Exc Gaierror [PyStr ?m] ?m (Some e))"
    using assms by (simp add: get_ip_from_tiktok_username_exc_def Let_def)
  have "length ?m \<noteq> length (exc_text e)" by simp
  then have diff: "?m \<noteq> exc_text e" by metis
  then have new: "Exc Gaierror [PyStr ?m] ?m (Some e) \<noteq> e"
    by (metis pyexc.sel(3))
  from res diff new assms(3) show ?thesis
    by (simp add: errno_def strerror_def top_level_except_def observed_def)
qed

theorem wrapped_error_same_class_new_object_witness:
  "''80alaajutt'' \<noteq> []
   \<and> exc_kind name_not_known = Gaierror
   \<and> fst (get_ip_from_tiktok_username_exc None (\<lambda>h. Inl name_not_known)
            ''80alaajutt'' \<lparr>lookups = [], stdout = []\<rparr>) =
       Inl (Exc Gaierror
         [PyStr ''Error getting IP address for 80alaajutt: [Errno -2] Name or service not known'']
         ''Error getting IP address for 80alaajutt: [Errno -2] Name or service not known''
         (Some name_not_known))"
proof -
  have nonempty: "''80alaajutt'' \<noteq> []" by simp
  have raised: "(\<lambda>h. Inl name_not_known) (''https://www.tiktok.com/@'' @ ''80alaajutt'') =
                  (Inl name_not_known :: pyexc + string)"
    by simp
  have cls: "exc_kind name_not_known = Gaierror"
    by (simp add: name_not_known_def)
  from wrapped_error_same_class_new_object
         [of "''80alaajutt''" "\<lambda>h. Inl name_not_known" name_not_known None
             "\<lparr>lookups = [], stdout = []\<rparr>", OF nonempty raised cls]
  obtain e' where
    "fst (get_ip_from_tiktok_username_exc None (\<lambda>h. Inl name_not_known)
            ''80alaajutt'' \<lparr>lookups = [], stdout = []\<rparr>) = Inl e'"
    and "exc_kind e' = exc_kind name_not_known"
    and "exc_args e' =
          [PyStr (''Error getting IP address for '' @ ''80alaajutt'' @ '': ''
                  @ exc_text name_not_known)]"
    and "exc_text e' =
          ''Error getting IP address for '' @ ''80alaajutt'' @ '': '' @ exc_text name_not_known"
    and "exc_context e' = Some name_not_known"
    by blast
  then have "fst (get_ip_from_tiktok_username_exc None (\<lambda>h. Inl name_not_known)
            ''80alaajutt'' \<lparr>lookups = [], stdout = []\<rparr>) =
       Inl (Exc Gaierror
         [PyStr ''Error getting IP address for 80alaajutt: [Errno -2] Name or service not known'']
         ''Error getting IP address for 80alaajutt: [Errno -2] Name or service not known''
         (Some name_not_known))"
    by (cases e') (simp add: name_not_known_def)
  with nonempty cls show ?thesis by simp
qed

text \<open>
  The claim as written has the message text as the only difference between the two
  errors. At the error that the resolver raises for the name built from
  \<^verbatim>\<open>80alaajutt\<close>, the error that leaves the function differs from it in \<^verbatim>\<open>errno\<close>
  (\<^verbatim>\<open>None\<close> against \<^verbatim>\<open>-2\<close>), in \<^verbatim>\<open>strerror\<close>, in the number of arguments and in
  \<^verbatim>\<open>__context__\<close>.
\<close>

theorem wrapped_error_differs_beyond_text_counterexample:
  "fst (get_ip_from_tiktok_username_exc None (\<lambda>h. Inl name_not_known)
          ''80alaajutt'' \<lparr>lookups = [], stdout = []\<rparr>) =
     Inl (Exc Gaierror
       [PyStr ''Error getting IP address for 80alaajutt: [Errno -2] Name or service not known'']
       ''Error getting IP address for 80alaajutt: [Errno -2] Name or service not known''
       (Some name_not_known))
   \<and> errno name_not_known = Some (PyInt (- 2))
   \<and> errno (Exc Gaierror
       [PyStr ''Error getting IP address for 80alaajutt: [Errno -2] Name or service not known'']
       ''Error getting IP address for 80alaajutt: [Errno -2] Name or service not known''
       (Some name_not_known)) = None
   \<and> strerror name_not_known = Some (PyStr ''Name or service not known'')
   \<and> strerror (Exc Gaierror
       [PyStr ''Error getting IP address for 80alaajutt: [Errno -2] Name or service not known'']
       ''Error getting IP address for 80alaajutt: [Errno -2] Name or service not known''
       (Some name_not_known)) = None
   \<and> length (exc_args name_not_known) = 2
   \<and> exc_context name_not_known = None"
  by (simp add: get_ip_from_tiktok_username_exc_def Let_def errno_def strerror_def
        name_not_known_def)

text \<open>
  Claim C10. The result of the function is determined by the identifier and the
  resolver's response to the constructed string: two resolvers that agree on that string
  give the same result, from any two states, and the same result and final state from
  the same state.
\<close>

theorem result_depends_on_identifier_and_response_only:
  assumes "r1 (''https://www.tiktok.com/@'' @ username) =
           r2 (''https://www.tiktok.com/@'' @ username)"
  shows "fst (get_ip_from_tiktok_username r1 username w1) =
           fst (get_ip_from_tiktok_username r2 username w2)
         \<and> get_ip_from_tiktok_username r1 username w1 =
             get_ip_from_tiktok_username r2 username w1"
  using assms
  by (simp add: get_ip_from_tiktok_username_def socket_gethostbyname_def Let_def
        split: sum.splits)

theorem result_depends_on_identifier_and_response_only_witness:
  "(\<lambda>h. Inr ''203.0.113.7'') (''https://www.tiktok.com/@'' @ ''bob'') =
     (\<lambda>h. if h = ''https://www.tiktok.com/@bob'' then Inr ''203.0.113.7''
           else Inl (Exn Gaierror ''unknown host'')) (''https://www.tiktok.com/@'' @ ''bob'')
   \<and> fst (get_ip_from_tiktok_username (\<lambda>h. Inr ''203.0.113.7'') ''bob''
            \<lparr>lookups = [], stdout = []\<rparr>) =
     fst (get_ip_from_tiktok_username
            (\<lambda>h. if h = ''https://www.tiktok.com/@bob'' then Inr ''203.0.113.7''
                  else Inl (Exn Gaierror ''unknown host''))
            ''bob'' \<lparr>lookups = [''x''], stdout = ''earlier output''\<rparr>)"
proof -
  have same: "(\<lambda>h. Inr ''203.0.113.7'') (''https://www.tiktok.com/@'' @ ''bob'') =
     (\<lambda>h. if h = ''https://www.tiktok.com/@bob'' then Inr ''203.0.113.7''
           else Inl (Exn Gaierror ''unknown host'')) (''https://www.tiktok.com/@'' @ ''bob'')"
    by simp
  from same result_depends_on_identifier_and_response_only
      [of "\<lambda>h. Inr ''203.0.113.7''" "''bob''"
          "\<lambda>h. if h = ''https://www.tiktok.com/@bob'' then Inr ''203.0.113.7''
                else Inl (Exn Gaierror ''unknown host'')"
          "\<lparr>lookups = [], stdout = []\<rparr>"
          "\<lparr>lookups = [''x''], stdout = ''earlier output''\<rparr>"]
  show ?thesis
    by blast
qed

subsection \<open>Properties of the driver\<close>

text \<open>
  Claim C5. What a run of the script writes to standard output is decided by the outcome
  of the call. After a return it is \<^verbatim>\<open>The IP address for TikTok username '80alaajutt' is: \<close>
  followed by the address and a line feed; after an error of one of the two classes that
  the top-level clause names it is \<^verbatim>\<open>Error: \<close> followed by the message of the error and
  a line feed; after an exception of another class it is nothing, since that exception is
  not caught. The call itself writes nothing. The number of line feeds written is one
  more than the number in the address or message, so the one \<^verbatim>\<open>print\<close> is exactly one
  line when the address or message has no line feed in it.
\<close>

theorem script_output:
  "stdout (snd (script r w)) =
     stdout w @
     (case fst (get_ip_from_tiktok_username r ''80alaajutt'' w) of
        Inr ip_address \<Rightarrow>
          ''The IP address for TikTok username '80alaajutt' is: '' @ ip_address @ [newline]
      | Inl e \<Rightarrow>
          if kind e = OtherExn then [] else ''Error: '' @ message e @ [newline])
   \<and> count_list (drop (length (stdout w)) (stdout (snd (script r w)))) newline =
     (case fst (get_ip_from_tiktok_username r ''80alaajutt'' w) of
        Inr ip_address \<Rightarrow> Suc (count_list ip_address newline)
      | Inl e \<Rightarrow>
          if kind e = OtherExn then 0 else Suc (count_list (message e) newline))"
proof -
  obtain res w1 where call: "get_ip_from_tiktok_username r ''80alaajutt'' w = (res, w1)"
    by (cases "get_ip_from_tiktok_username r ''80alaajutt'' w")
  have out: "stdout w1 = stdout w"
    using get_ip_stdout [of r "''80alaajutt''" w] call by simp
  show ?thesis
  proof (cases res)
    case (Inr a)
    with call have "script r w =
        (Completed,
         w1\<lparr>stdout := stdout w1 @ ''The IP address for TikTok username '' @ [CHR 0x27]
                @ ''80alaajutt'' @ [CHR 0x27] @ '' is: '' @ a @ [newline]\<rparr>)"
      by (simp add: script_def run_with_returns)
    with Inr call out show ?thesis by (simp add: newline_def)
  next
    case (Inl e)
    show ?thesis
    proof (cases "kind e = OtherExn")
      case True
      with Inl call have "script r w = (Uncaught e, w1)"
        by (simp add: script_def run_with_uncaught)
      with Inl call out True show ?thesis by simp
    next
      case False
      then have "kind e = ValueError \<or> kind e = Gaierror"
        by (cases "kind e") simp_all
      with Inl call have "script r w =
          (Completed, w1\<lparr>stdout := stdout w1 @ ''Error: '' @ message e @ [newline]\<rparr>)"
        by (simp add: script_def run_with_caught)
      with Inl call out False show ?thesis by (simp add: newline_def)
    qed
  qed
qed

theorem script_output_witness:
  "stdout (snd (script (\<lambda>h. Inr ''203.0.113.7'') \<lparr>lookups = [], stdout = ''earlier''\<rparr>)) =
     ''earlier'' @ ''The IP address for TikTok username '80alaajutt' is: 203.0.113.7''
       @ [newline]
   \<and> count_list (drop (length ''earlier'')
        (stdout (snd (script (\<lambda>h. Inr ''203.0.113.7'')
           \<lparr>lookups = [], stdout = ''earlier''\<rparr>)))) newline = 1"
  using script_output [of "\<lambda>h. Inr ''203.0.113.7''" "\<lparr>lookups = [], stdout = ''earlier''\<rparr>"]
  by (simp add: get_ip_from_tiktok_username_def socket_gethostbyname_def Let_def newline_def)

text \<open>
  The claim as written has one line on every run. An exception that is neither a
  \<^verbatim>\<open>ValueError\<close> nor a \<^verbatim>\<open>socket.gaierror\<close> passes both \<^verbatim>\<open>except\<close> clauses, for
  instance the \<^verbatim>\<open>KeyboardInterrupt\<close> (its text is empty) of a user who interrupts the
  lookup; the run then ends with nothing on standard output.
\<close>

theorem script_uncaught_prints_nothing_counterexample:
  "script (\<lambda>h. Inl (Exn OtherExn [])) \<lparr>lookups = [], stdout = []\<rparr> =
     (Uncaught (Exn OtherExn []),
      \<lparr>lookups = [''https://www.tiktok.com/@80alaajutt''], stdout = []\<rparr>)
   \<and> stdout (snd (script (\<lambda>h. Inl (Exn OtherExn [])) \<lparr>lookups = [], stdout = []\<rparr>)) = []
   \<and> count_list
        (stdout (snd (script (\<lambda>h. Inl (Exn OtherExn [])) \<lparr>lookups = [], stdout = []\<rparr>)))
        newline \<noteq> 1"
  by (simp add: script_def run_with_def top_level_except_def get_ip_from_tiktok_username_def
        socket_gethostbyname_def Let_def)

text \<open>
  Claim C6. An error of either class that the function raises (its invalid-input error
  is a \<^verbatim>\<open>ValueError\<close>, its resolution error a \<^verbatim>\<open>socket.gaierror\<close>) is caught by the
  top-level clause and printed as \<^verbatim>\<open>Error: \<close> followed by its message. The clause
  looks nothing up, so the run has made at most the one lookup of the call. The script
  then completes with exit status 0, the status of a run in which the call returned.
\<close>

theorem both_errors_caught_and_printed:
  assumes "get_ip_from_tiktok_username r username w = (Inl e, w1)"
    and "kind e = ValueError \<or> kind e = Gaierror"
  shows "run_with r username w = (Completed, py_print (''Error: '' @ message e) w1)
         \<and> lookups (snd (run_with r username w)) = lookups w1
         \<and> length (lookups w1) \<le> length (lookups w) + 1
         \<and> exit_status (fst (run_with r username w)) = Some 0
         \<and> (\<forall>r' w' a. fst (get_ip_from_tiktok_username r' username w') = Inr a \<longrightarrow>
               exit_status (fst (run_with r' username w')) =
               exit_status (fst (run_with r username w)))"
proof -
  have run: "run_with r username w = (Completed, py_print (''Error: '' @ message e) w1)"
    using assms by (simp add: run_with_caught py_print_def)
  have once: "length (lookups w1) \<le> length (lookups w) + 1"
  proof (cases "username = []")
    case True
    with assms(1) show ?thesis by (simp add: get_ip_empty)
  next
    case False
    from get_ip_lookups [OF False, of r w] assms(1) show ?thesis by simp
  qed
  have ok: "exit_status (fst (run_with r' username w')) = Some 0"
    if "fst (get_ip_from_tiktok_username r' username w') = Inr a" for r' w' a
  proof -
    have "get_ip_from_tiktok_username r' username w' =
            (Inr a, snd (get_ip_from_tiktok_username r' username w'))"
      using that by (simp add: prod_eq_iff)
    then show ?thesis by (simp add: run_with_returns)
  qed
  from run once ok show ?thesis by (simp add: py_print_def)
qed

theorem both_errors_caught_and_printed_witness:
  "get_ip_from_tiktok_username (\<lambda>h. Inl (Exn Gaierror ''[Errno -2] Name or service not known''))
       ''bob'' \<lparr>lookups = [], stdout = []\<rparr> =
     (Inl (Exn Gaierror ''Error getting IP address for bob: [Errno -2] Name or service not known''),
      \<lparr>lookups = [''https://www.tiktok.com/@bob''], stdout = []\<rparr>)
   \<and> run_with (\<lambda>h. Inl (Exn Gaierror ''[Errno -2] Name or service not known''))
       ''bob'' \<lparr>lookups = [], stdout = []\<rparr> =
     (Completed,
      \<lparr>lookups = [''https://www.tiktok.com/@bob''],
       stdout = ''Error: Error getting IP address for bob: [Errno -2] Name or service not known''
                @ [newline]\<rparr>)"
proof -
  have call: "get_ip_from_tiktok_username
       (\<lambda>h. Inl (Exn Gaierror ''[Errno -2] Name or service not known''))
       ''bob'' \<lparr>lookups = [], stdout = []\<rparr> =
     (Inl (Exn Gaierror ''Error getting IP address for bob: [Errno -2] Name or service not known''),
      \<lparr>lookups = [''https://www.tiktok.com/@bob''], stdout = []\<rparr>)"
    by (simp add: get_ip_from_tiktok_username_def socket_gethostbyname_def Let_def)
  have caught: "kind (Exn Gaierror
       ''Error getting IP address for bob: [Errno -2] Name or service not known'') = ValueError
     \<or> kind (Exn Gaierror
       ''Error getting IP address for bob: [Errno -2] Name or service not known'') = Gaierror"
    by simp
  from both_errors_caught_and_printed [OF call caught] call show ?thesis
    by (simp add: py_print_def)
qed

text \<open>
  Claim C7. The script calls the function with \<^verbatim>\<open>80alaajutt\<close>. When the resolver
  raises \<^verbatim>\<open>socket.gaierror\<close> for the string constructed from it, the script makes that
  one lookup, prints \<^verbatim>\<open>Error: Error getting IP address for 80alaajutt: \<close> followed by the
  text of the resolver's error, and completes.
\<close>

theorem script_resolution_failure_output:
  assumes "r ''https://www.tiktok.com/@80alaajutt'' = Inl e"
    and "kind e = Gaierror"
  shows "script r w =
           (Completed,
            w\<lparr>lookups := lookups w @ [''https://www.tiktok.com/@80alaajutt''],
              stdout := stdout w @ ''Error: Error getting IP address for 80alaajutt: ''
                          @ message e @ [newline]\<rparr>)"
proof -
  have "get_ip_from_tiktok_username r ''80alaajutt'' w =
          (Inl (Exn Gaierror (''Error getting IP address for '' @ ''80alaajutt'' @ '': '' @ message e)),
           w\<lparr>lookups := lookups w @ [''https://www.tiktok.com/@'' @ ''80alaajutt'']\<rparr>)"
    using assms by (intro get_ip_gaierror) simp_all
  then show ?thesis
    by (simp add: script_def run_with_caught)
qed

theorem script_resolution_failure_output_witness:
  "script (\<lambda>h. Inl (Exn Gaierror ''[Errno -2] Name or service not known''))
       \<lparr>lookups = [], stdout = []\<rparr> =
     (Completed,
      \<lparr>lookups = [''https://www.tiktok.com/@80alaajutt''],
       stdout = ''Error: Error getting IP address for 80alaajutt: [Errno -2] Name or service not known''
                @ [newline]\<rparr>)"
  using script_resolution_failure_output
    [of "\<lambda>h. Inl (Exn Gaierror ''[Errno -2] Name or service not known'')"
        "Exn Gaierror ''[Errno -2] Name or service not known''" "\<lparr>lookups = [], stdout = []\<rparr>"]
  by simp

end
